theory Spec2Isabelle
  imports
    Main
    "HOL-Library.Mapping"
    "HOL-Library.AList_Mapping"
    "HOL-Library.List_Lexorder"
    "HOL-Library.Char_ord"
begin

section \<open>The sendwithus client (swu.go)\<close>

text \<open>
  The client of swu.go marshals typed requests to JSON, performs one HTTP exchange per
  call and unmarshals the answer into a typed result. The embedding has the data transfer
  structs first, then what the libraries do with them, then the error type, the request
  primitive \<open>makeRequest\<close> and the public operations built on it.

  Three libraries stand behind the code: \<open>encoding/json\<close>, \<open>go-querystring\<close> with
  \<open>net/url\<close>, and \<open>net/http\<close>. Their part is modelled as far as the structs and calls of
  swu.go exercise it, following their documentation; each such definition says so.

  Conventions. A Go \<open>string\<close> is a \<open>string\<close> of bytes. \<open>int\<close> and \<open>int64\<close> are
  \<open>int\<close>: the code does no arithmetic on them, and the decoder checks the 64-bit range
  where a value enters. A slice is a list (the code never tells a nil slice from an empty
  one, and \<open>omitempty\<close> drops both); a pointer is an \<open>option\<close>, \<open>None\<close> being nil; a
  \<open>map[string]string\<close> is a \<open>mapping\<close>. Two structs may not share a field name in
  HOL, so every field carries the name of its struct in front: \<open>template_ID\<close> is
  \<open>SWUTemplate.ID\<close>. The client a method is called on and its transport are not nil.
\<close>

subsection \<open>JSON documents\<close>

text \<open>
  A JSON document as \<open>encoding/json\<close> reads and writes it. A number keeps its literal;
  an object keeps its members in the order of the text.
\<close>

datatype json =
    JNull
  | JBool bool
  | JNumber string
  | JString string
  | JArray "json list"
  | JObject "(string \<times> json) list"

text \<open>\<open>strconv.FormatInt(n, 10)\<close>: the decimal literal of an integer.\<close>

function FormatUint :: "nat \<Rightarrow> string" where
  "FormatUint n =
     (if n < 10 then [''0123456789'' ! n]
      else FormatUint (n div 10) @ [''0123456789'' ! (n mod 10)])"
  by pat_completeness auto
termination
  by (relation "measure id") auto

declare FormatUint.simps [simp del]

definition FormatInt :: "int \<Rightarrow> string" where
  "FormatInt i = (if i < 0 then CHR ''-'' # FormatUint (nat (- i)) else FormatUint (nat i))"

subsection \<open>The data transfer structs\<close>

record SWUVersion =
  version_Name :: string
  version_ID :: string
  version_Created :: int
  version_HTML :: string
  version_Text :: string
  version_Subject :: string
  version_Published :: bool

record SWUTemplate =
  template_ID :: string
  template_Tags :: "string list"
  template_Created :: int
  template_Versions :: "SWUVersion option list"
  template_Name :: string






record SWULogEvent =
  event_Object :: string
  event_Created :: int
  event_Type :: string
  event_Message :: string

record SWULogQuery =
  query_Count :: int
  query_Offset :: int
  query_CreatedGT :: int
  query_CreatedGTE :: int
  query_CreatedLT :: int
  query_CreatedLTE :: int

text \<open>\<open>SWULog\<close> embeds \<open>SWULogEvent\<close>.\<close>

record SWULog =
  log_SWULogEvent :: SWULogEvent
  log_ID :: string
  log_RecipientName :: string
  log_RecipientAddress :: string
  log_Status :: string
  log_EmailID :: string
  log_EmailName :: string
  log_EmailVersion :: string
  log_EventsURL :: string

text \<open>The anonymous struct of the field \<open>Email\<close> of \<open>SWULogResend\<close>.\<close>

record SWULogResendEmail =
  resend_email_Name :: string
  resend_email_VersionName :: string

record SWULogResend =
  resend_Success :: bool
  resend_Status :: string
  resend_ID :: string
  resend_Email :: SWULogResendEmail

text \<open>The zero values Go gives to \<open>var parse T\<close> and to the fields a literal leaves out.\<close>

definition zero_SWUVersion :: SWUVersion where
  "zero_SWUVersion =
     \<lparr>version_Name = [], version_ID = [], version_Created = 0, version_HTML = [],
      version_Text = [], version_Subject = [], version_Published = False\<rparr>"

definition zero_SWUTemplate :: SWUTemplate where
  "zero_SWUTemplate =
     \<lparr>template_ID = [], template_Tags = [], template_Created = 0,
      template_Versions = [], template_Name = []\<rparr>"

definition zero_SWULogEvent :: SWULogEvent where
  "zero_SWULogEvent =
     \<lparr>event_Object = [], event_Created = 0, event_Type = [], event_Message = []\<rparr>"

definition zero_SWULog :: SWULog where
  "zero_SWULog =
     \<lparr>log_SWULogEvent = zero_SWULogEvent, log_ID = [], log_RecipientName = [],
      log_RecipientAddress = [], log_Status = [], log_EmailID = [], log_EmailName = [],
      log_EmailVersion = [], log_EventsURL = []\<rparr>"

definition zero_SWULogResendEmail :: SWULogResendEmail where
  "zero_SWULogResendEmail = \<lparr>resend_email_Name = [], resend_email_VersionName = []\<rparr>"

definition zero_SWULogResend :: SWULogResend where
  "zero_SWULogResend =
     \<lparr>resend_Success = False, resend_Status = [], resend_ID = [],
      resend_Email = zero_SWULogResendEmail\<rparr>"

subsection \<open>\<open>json.Marshal\<close> on the structs\<close>

text \<open>
  \<open>json.Marshal\<close> writes the exported fields of a struct in the order of their
  declaration, each under the name of its \<open>json\<close> tag. A field tagged \<open>omitempty\<close> is
  left out when its value is empty: false, 0, a nil pointer, or a slice, map or string of
  length zero. A struct value is never empty. A nil pointer is written \<open>null\<close>, a map as
  an object with its keys sorted. How the encoder spells a document in bytes is left to
  it: the payload of a request is the document.

  \<open>json.Marshal\<close> returns an error for a value it cannot encode (a channel, a function,
  a cyclic value, a failing \<open>Marshaler\<close>). The types of swu.go hold strings, integers,
  booleans, slices, maps and structs only, so for them \<open>Marshal\<close> returns the document
  that the encoder \<open>enc\<close> of the type writes.
\<close>

definition Marshal :: "('a \<Rightarrow> json) \<Rightarrow> 'a \<Rightarrow> string + json" where
  "Marshal enc v = Inr (enc v)"

definition field :: "string \<Rightarrow> json \<Rightarrow> (string \<times> json) list" where
  "field name v = [(name, v)]"

definition omitempty :: "string \<Rightarrow> bool \<Rightarrow> json \<Rightarrow> (string \<times> json) list" where
  "omitempty name isEmptyValue v = (if isEmptyValue then [] else [(name, v)])"

definition Marshal_int :: "int \<Rightarrow> json" where
  "Marshal_int i = JNumber (FormatInt i)"

definition Marshal_ptr :: "('a \<Rightarrow> json) \<Rightarrow> 'a option \<Rightarrow> json" where
  "Marshal_ptr enc p = (case p of None \<Rightarrow> JNull | Some v \<Rightarrow> enc v)"

definition Marshal_slice :: "('a \<Rightarrow> json) \<Rightarrow> 'a list \<Rightarrow> json" where
  "Marshal_slice enc xs = JArray (map enc xs)"


definition Marshal_SWUVersion :: "SWUVersion \<Rightarrow> json" where
  "Marshal_SWUVersion v = JObject (
     omitempty ''name'' (version_Name v = []) (JString (version_Name v)) @
     omitempty ''id'' (version_ID v = []) (JString (version_ID v)) @
     omitempty ''created'' (version_Created v = 0) (Marshal_int (version_Created v)) @
     omitempty ''html'' (version_HTML v = []) (JString (version_HTML v)) @
     omitempty ''text'' (version_Text v = []) (JString (version_Text v)) @
     omitempty ''subject'' (version_Subject v = []) (JString (version_Subject v)) @
     omitempty ''published'' (\<not> version_Published v) (JBool (version_Published v)))"

definition Marshal_SWUTemplate :: "SWUTemplate \<Rightarrow> json" where
  "Marshal_SWUTemplate t = JObject (
     omitempty ''id'' (template_ID t = []) (JString (template_ID t)) @
     omitempty ''tags'' (template_Tags t = []) (Marshal_slice JString (template_Tags t)) @
     omitempty ''created'' (template_Created t = 0) (Marshal_int (template_Created t)) @
     omitempty ''versions'' (template_Versions t = [])
       (Marshal_slice (Marshal_ptr Marshal_SWUVersion) (template_Versions t)) @
     omitempty ''name'' (template_Name t = []) (JString (template_Name t)))"







text \<open>
  The field \<open>Email\<close> of \<open>SWULogResend\<close> is tagged \<open>json:"email"\<close> and its two fields
  \<open>json:"name"\<close> and \<open>json:"version_name"\<close>, all three without \<open>omitempty\<close>: they are
  always written.
\<close>

definition Marshal_SWULogResendEmail :: "SWULogResendEmail \<Rightarrow> json" where
  "Marshal_SWULogResendEmail e = JObject (
     field ''name'' (JString (resend_email_Name e)) @
     field ''version_name'' (JString (resend_email_VersionName e)))"

definition Marshal_SWULogResend :: "SWULogResend \<Rightarrow> json" where
  "Marshal_SWULogResend r = JObject (
     omitempty ''success'' (\<not> resend_Success r) (JBool (resend_Success r)) @
     omitempty ''status'' (resend_Status r = []) (JString (resend_Status r)) @
     omitempty ''log_id'' (resend_ID r = []) (JString (resend_ID r)) @
     field ''email'' (Marshal_SWULogResendEmail (resend_Email r)))"

subsection \<open>Reading a JSON text\<close>

text \<open>
  \<open>json.Unmarshal\<close> first checks that its input is one well-formed JSON text (RFC 8259):
  one value between optional white space, where a value is an object, an array, a string, a
  number or one of \<open>true\<close>, \<open>false\<close>, \<open>null\<close>. The functions below read such a text
  into a \<open>json\<close> document and give \<open>None\<close> where the text is ill-formed.

  Two things \<open>encoding/json\<close> does are left out: it replaces ill-formed UTF-8 inside
  a string by U+FFFD (the model keeps the bytes of a string as they are), and it refuses
  texts nested deeper than 10000 levels.
\<close>

definition is_space :: "char \<Rightarrow> bool" where
  "is_space c \<longleftrightarrow> c = CHR '' '' \<or> c = CHR 0x09 \<or> c = CHR 0x0A \<or> c = CHR 0x0D"

definition skip_space :: "string \<Rightarrow> string" where
  "skip_space s = dropWhile is_space s"

definition is_digit :: "char \<Rightarrow> bool" where
  "is_digit c \<longleftrightarrow> c \<in> set ''0123456789''"

definition hex_digit :: "char \<Rightarrow> nat option" where
  "hex_digit c =
     (if is_digit c then Some (of_char c - 48)
      else if c \<in> set ''abcdef'' then Some (of_char c - 87)
      else if c \<in> set ''ABCDEF'' then Some (of_char c - 55)
      else None)"

text \<open>
  \<open>getu4\<close> reads the escape \<open>\uXXXX\<close> at the head of the input; \<open>EncodeRune\<close> is
  \<open>utf8.EncodeRune\<close>.
\<close>

definition getu4 :: "string \<Rightarrow> nat option" where
  "getu4 s =
     (case s of
        b # u # h1 # h2 # h3 # h4 # _ \<Rightarrow>
          if b = CHR 0x5C \<and> u = CHR ''u'' then
            (case (hex_digit h1, hex_digit h2, hex_digit h3, hex_digit h4) of
               (Some a, Some b, Some c, Some d) \<Rightarrow> Some (((a * 16 + b) * 16 + c) * 16 + d)
             | _ \<Rightarrow> None)
          else None
      | _ \<Rightarrow> None)"

definition EncodeRune :: "nat \<Rightarrow> string" where
  "EncodeRune r =
     (if r < 0x80 then [char_of r]
      else if r < 0x800 then [char_of (0xC0 + r div 64), char_of (0x80 + r mod 64)]
      else if r < 0x10000 then
        [char_of (0xE0 + r div 4096), char_of (0x80 + r div 64 mod 64), char_of (0x80 + r mod 64)]
      else
        [char_of (0xF0 + r div 262144), char_of (0x80 + r div 4096 mod 64),
         char_of (0x80 + r div 64 mod 64), char_of (0x80 + r mod 64)])"

definition escape_char :: "char \<Rightarrow> char option" where
  "escape_char e =
     (if e = CHR 0x22 \<or> e = CHR 0x5C \<or> e = CHR ''/'' then Some e
      else if e = CHR ''b'' then Some (CHR 0x08)
      else if e = CHR ''f'' then Some (CHR 0x0C)
      else if e = CHR ''n'' then Some (CHR 0x0A)
      else if e = CHR ''r'' then Some (CHR 0x0D)
      else if e = CHR ''t'' then Some (CHR 0x09)
      else None)"

definition prepend :: "'a list \<Rightarrow> ('a list \<times> 'b) option \<Rightarrow> ('a list \<times> 'b) option" where
  "prepend xs r = (case r of None \<Rightarrow> None | Some (ys, rest) \<Rightarrow> Some (xs @ ys, rest))"

text \<open>
  The rest of a string literal after its opening quote: the bytes of the string and the
  input behind the closing quote. A \<open>\u\<close> escape that is half of a surrogate pair is
  joined with the escape for the other half when that follows, and is U+FFFD otherwise.
  A control character below 0x20 may not stand in a string.
\<close>

fun unquote :: "string \<Rightarrow> (string \<times> string) option" where
  "unquote [] = None"
| "unquote (c # cs) =
     (if c = CHR 0x22 then Some ([], cs)
      else if c = CHR 0x5C then
        (case cs of
           [] \<Rightarrow> None
         | e # cs' \<Rightarrow>
             if e = CHR ''u'' then
               (case getu4 (c # cs) of
                  None \<Rightarrow> None
                | Some rr \<Rightarrow>
                    if 0xD800 \<le> rr \<and> rr < 0xE000 then
                      (case getu4 (drop 4 cs') of
                         Some rr1 \<Rightarrow>
                           if rr < 0xDC00 \<and> 0xDC00 \<le> rr1 \<and> rr1 < 0xE000 then
                             prepend (EncodeRune ((rr - 0xD800) * 1024 + (rr1 - 0xDC00) + 0x10000))
                               (unquote (drop 10 cs'))
                           else prepend (EncodeRune 0xFFFD) (unquote (drop 4 cs'))
                       | None \<Rightarrow> prepend (EncodeRune 0xFFFD) (unquote (drop 4 cs')))
                    else prepend (EncodeRune rr) (unquote (drop 4 cs')))
             else
               (case escape_char e of
                  None \<Rightarrow> None
                | Some b \<Rightarrow> prepend [b] (unquote cs')))
      else if (of_char c :: nat) < 0x20 then None
      else prepend [c] (unquote cs))"


text \<open>
  A number literal: an optional minus sign, an integer part without a leading zero, an
  optional fraction and an optional exponent.
\<close>

definition scan_digits :: "string \<Rightarrow> (string \<times> string) option" where
  "scan_digits s =
     (if takeWhile is_digit s = [] then None
      else Some (takeWhile is_digit s, dropWhile is_digit s))"

definition scan_int :: "string \<Rightarrow> (string \<times> string) option" where
  "scan_int s =
     (case s of
        [] \<Rightarrow> None
      | c # cs \<Rightarrow> if c = CHR ''0'' then Some ([c], cs) else scan_digits s)"

definition scan_frac :: "string \<Rightarrow> (string \<times> string) option" where
  "scan_frac s =
     (case s of
        [] \<Rightarrow> Some ([], s)
      | c # cs \<Rightarrow> if c = CHR ''.'' then prepend [c] (scan_digits cs) else Some ([], s))"

definition scan_exp :: "string \<Rightarrow> (string \<times> string) option" where
  "scan_exp s =
     (case s of
        [] \<Rightarrow> Some ([], s)
      | c # cs \<Rightarrow>
          if c = CHR ''e'' \<or> c = CHR ''E'' then
            (case cs of
               [] \<Rightarrow> None
             | d # ds \<Rightarrow>
                 if d = CHR ''+'' \<or> d = CHR ''-'' then prepend [c, d] (scan_digits ds)
                 else prepend [c] (scan_digits cs))
          else Some ([], s))"

definition scan_number :: "string \<Rightarrow> (string \<times> string) option" where
  "scan_number s =
     (let (sign, s0) = (case s of [] \<Rightarrow> ([], s) | c # cs \<Rightarrow> if c = CHR ''-'' then ([c], cs) else ([], s))
      in case scan_int s0 of
           None \<Rightarrow> None
         | Some (i, s1) \<Rightarrow>
             (case scan_frac s1 of
                None \<Rightarrow> None
              | Some (f, s2) \<Rightarrow> prepend (sign @ i @ f) (scan_exp s2)))"

text \<open>
  Values, the elements of an array after its opening bracket, and the members of an object
  after its opening brace. The first argument bounds the number of calls: every second
  call at the latest consumes a byte, so \<open>2 * length data + 2\<close> calls are enough for
  any text \<open>data\<close>.
\<close>

definition tag :: "('a \<Rightarrow> json) \<Rightarrow> ('a \<times> string) option \<Rightarrow> (json \<times> string) option" where
  "tag mk r = (case r of None \<Rightarrow> None | Some (x, rest) \<Rightarrow> Some (mk x, rest))"

fun scan_value :: "nat \<Rightarrow> string \<Rightarrow> (json \<times> string) option"
  and scan_elements :: "nat \<Rightarrow> string \<Rightarrow> (json list \<times> string) option"
  and scan_members :: "nat \<Rightarrow> string \<Rightarrow> ((string \<times> json) list \<times> string) option"
where
  "scan_value 0 s = None"
| "scan_value (Suc n) s =
     (case skip_space s of
        [] \<Rightarrow> None
      | c # cs \<Rightarrow>
          if c = CHR ''{'' then
            (case skip_space cs of
               [] \<Rightarrow> None
             | d # ds \<Rightarrow> if d = CHR ''}'' then Some (JObject [], ds) else tag JObject (scan_members n (d # ds)))
          else if c = CHR ''['' then
            (case skip_space cs of
               [] \<Rightarrow> None
             | d # ds \<Rightarrow> if d = CHR '']'' then Some (JArray [], ds) else tag JArray (scan_elements n (d # ds)))
          else if c = CHR 0x22 then tag JString (unquote cs)
          else if c = CHR ''-'' \<or> is_digit c then tag JNumber (scan_number (c # cs))
          else if take 4 (c # cs) = ''true'' then Some (JBool True, drop 4 (c # cs))
          else if take 5 (c # cs) = ''false'' then Some (JBool False, drop 5 (c # cs))
          else if take 4 (c # cs) = ''null'' then Some (JNull, drop 4 (c # cs))
          else None)"
| "scan_elements 0 s = None"
| "scan_elements (Suc n) s =
     (case scan_value n s of
        None \<Rightarrow> None
      | Some (v, r) \<Rightarrow>
          (case skip_space r of
             [] \<Rightarrow> None
           | c # cs \<Rightarrow>
               if c = CHR '','' then prepend [v] (scan_elements n cs)
               else if c = CHR '']'' then Some ([v], cs)
               else None))"
| "scan_members 0 s = None"
| "scan_members (Suc n) s =
     (case skip_space s of
        [] \<Rightarrow> None
      | q # qs \<Rightarrow>
          if q = CHR 0x22 then
            (case unquote qs of
               None \<Rightarrow> None
             | Some (k, r) \<Rightarrow>
                 (case skip_space r of
                    [] \<Rightarrow> None
                  | c # cs \<Rightarrow>
                      if c = CHR '':'' then
                        (case scan_value n cs of
                           None \<Rightarrow> None
                         | Some (v, r') \<Rightarrow>
                             (case skip_space r' of
                                [] \<Rightarrow> None
                              | d # ds \<Rightarrow>
                                  if d = CHR '','' then prepend [(k, v)] (scan_members n ds)
                                  else if d = CHR ''}'' then Some ([(k, v)], ds)
                                  else None))
                      else None))
          else None)"

definition parse_json :: "string \<Rightarrow> json option" where
  "parse_json data =
     (case scan_value (2 * length data + 2) data of
        None \<Rightarrow> None
      | Some (v, rest) \<Rightarrow> if skip_space rest = [] then Some v else None)"

subsection \<open>\<open>json.Unmarshal\<close> into the structs\<close>

text \<open>
  The errors of \<open>json.Unmarshal\<close>: the text is not JSON (\<open>*json.SyntaxError\<close>), or a
  value does not fit the Go type it is stored into (\<open>*json.UnmarshalTypeError\<close>). Their
  message texts are not modelled.
\<close>

datatype json_error = SyntaxError | UnmarshalTypeError

text \<open>
  A decoder stores a document into the current value of its target and returns the new
  value with the error it met, if any. After a type error \<open>Unmarshal\<close> goes on with the
  rest of the document and reports the first error at the end (\<open>saveError\<close>).
\<close>

type_synonym 'a decoder = "json \<Rightarrow> 'a \<Rightarrow> 'a \<times> json_error option"

definition saveError :: "json_error option \<Rightarrow> json_error option \<Rightarrow> json_error option" where
  "saveError savedError err = (case savedError of None \<Rightarrow> err | Some e \<Rightarrow> Some e)"

text \<open>\<open>null\<close> leaves a string, a number, a boolean and a struct as they are.\<close>

definition decode_string :: "string decoder" where
  "decode_string v cur =
     (case v of
        JNull \<Rightarrow> (cur, None)
      | JString s \<Rightarrow> (s, None)
      | _ \<Rightarrow> (cur, Some UnmarshalTypeError))"

definition decode_bool :: "bool decoder" where
  "decode_bool v cur =
     (case v of
        JNull \<Rightarrow> (cur, None)
      | JBool b \<Rightarrow> (b, None)
      | _ \<Rightarrow> (cur, Some UnmarshalTypeError))"

text \<open>
  \<open>strconv.ParseInt(s, 10, 64)\<close>: an optional sign and decimal digits, the value within
  the range of \<open>int64\<close>.
\<close>

definition ParseInt :: "string \<Rightarrow> int option" where
  "ParseInt s =
     (let (neg, ds) =
            (case s of
               [] \<Rightarrow> (False, s)
             | c # cs \<Rightarrow>
                 if c = CHR ''-'' then (True, cs)
                 else if c = CHR ''+'' then (False, cs)
                 else (False, s));
          n = foldl (\<lambda>a c. a * 10 + (of_char c - 48)) (0::int) ds;
          i = (if neg then - n else n)
      in if ds = [] \<or> \<not> list_all is_digit ds then None
         else if - (2 ^ 63) \<le> i \<and> i < 2 ^ 63 then Some i
         else None)"

definition decode_int :: "int decoder" where
  "decode_int v cur =
     (case v of
        JNull \<Rightarrow> (cur, None)
      | JNumber lit \<Rightarrow>
          (case ParseInt lit of
             Some i \<Rightarrow> (i, None)
           | None \<Rightarrow> (cur, Some UnmarshalTypeError))
      | _ \<Rightarrow> (cur, Some UnmarshalTypeError))"

text \<open>
  \<open>null\<close> sets a pointer to nil; any other value is stored into the value the pointer
  points to, a new zero value when the pointer is nil.
\<close>

definition decode_ptr :: "'a decoder \<Rightarrow> 'a \<Rightarrow> 'a option decoder" where
  "decode_ptr dec zero v cur =
     (case v of
        JNull \<Rightarrow> (None, None)
      | _ \<Rightarrow>
          (let (x, err) = dec v (case cur of None \<Rightarrow> zero | Some p \<Rightarrow> p)
           in (Some x, err)))"

text \<open>
  \<open>null\<close> sets a slice to nil. For an array \<open>Unmarshal\<close> resets the slice length to zero
  and then appends each element to the slice: the model stores each element into a zero
  value. (When a key occurs twice in an object, the implementation stores the elements of
  the second array over what the backing array of the slice still holds from the first;
  the model follows the documentation.)
\<close>

definition decode_slice :: "'a decoder \<Rightarrow> 'a \<Rightarrow> 'a list decoder" where
  "decode_slice dec zero v cur =
     (case v of
        JNull \<Rightarrow> ([], None)
      | JArray xs \<Rightarrow>
          (map (\<lambda>x. fst (dec x zero)) xs,
           foldl saveError None (map (\<lambda>x. snd (dec x zero)) xs))
      | _ \<Rightarrow> (cur, Some UnmarshalTypeError))"

text \<open>
  The keys of an object are matched to the fields of a struct by the names of the \<open>json\<close>
  tags, preferring an exact match but also accepting a case-insensitive match. All tags
  of swu.go are lower-case ASCII, so a key matches a tag without regard to case when
  each of its characters is the character of the tag, its upper-case form, or one of the
  two other characters that Unicode folds to an ASCII letter: the Kelvin sign (to \<open>k\<close>)
  and the long s (to \<open>s\<close>).
\<close>

fun equalFold :: "string \<Rightarrow> string \<Rightarrow> bool" where
  "equalFold [] key = (key = [])"
| "equalFold (n # name) key =
     (case key of
        [] \<Rightarrow> False
      | c # cs \<Rightarrow>
          if c = n then equalFold name cs
          else if n \<in> set ''abcdefghijklmnopqrstuvwxyz'' \<and> (of_char c :: nat) + 32 = of_char n
            then equalFold name cs
          else if n = CHR ''k'' \<and> take 3 key = [CHR 0xE2, CHR 0x84, CHR 0xAA]
            then equalFold name (drop 3 key)
          else if n = CHR ''s'' \<and> take 2 key = [CHR 0xC5, CHR 0xBF]
            then equalFold name (drop 2 key)
          else False)"

definition match_field :: "string list \<Rightarrow> string \<Rightarrow> string option" where
  "match_field names key =
     (if key \<in> set names then Some key else find (\<lambda>name. equalFold name key) names)"

text \<open>
  An object is stored into a struct member by member, in the order of the text; a key that
  matches no field is skipped.
\<close>

definition decode_struct :: "(string \<Rightarrow> 'a decoder) \<Rightarrow> 'a decoder" where
  "decode_struct set_field v cur =
     (case v of
        JNull \<Rightarrow> (cur, None)
      | JObject members \<Rightarrow>
          foldl (\<lambda>(s, savedError) (key, x).
                   let (s', err) = set_field key x s in (s', saveError savedError err))
            (cur, None) members
      | _ \<Rightarrow> (cur, Some UnmarshalTypeError))"

definition store :: "'a decoder \<Rightarrow> json \<Rightarrow> 'a \<Rightarrow> ('a \<Rightarrow> 's) \<Rightarrow> 's \<times> json_error option" where
  "store dec x cur put = (let (y, err) = dec x cur in (put y, err))"

definition set_SWUVersion :: "string \<Rightarrow> SWUVersion decoder" where
  "set_SWUVersion key x v =
     (case match_field [''name'', ''id'', ''created'', ''html'', ''text'', ''subject'', ''published''] key of
        None \<Rightarrow> (v, None)
      | Some f \<Rightarrow>
          if f = ''name'' then store decode_string x (version_Name v) (\<lambda>y. v\<lparr>version_Name := y\<rparr>)
          else if f = ''id'' then store decode_string x (version_ID v) (\<lambda>y. v\<lparr>version_ID := y\<rparr>)
          else if f = ''created'' then store decode_int x (version_Created v) (\<lambda>y. v\<lparr>version_Created := y\<rparr>)
          else if f = ''html'' then store decode_string x (version_HTML v) (\<lambda>y. v\<lparr>version_HTML := y\<rparr>)
          else if f = ''text'' then store decode_string x (version_Text v) (\<lambda>y. v\<lparr>version_Text := y\<rparr>)
          else if f = ''subject'' then store decode_string x (version_Subject v) (\<lambda>y. v\<lparr>version_Subject := y\<rparr>)
          else store decode_bool x (version_Published v) (\<lambda>y. v\<lparr>version_Published := y\<rparr>))"

definition decode_SWUVersion :: "SWUVersion decoder" where
  "decode_SWUVersion = decode_struct set_SWUVersion"

definition set_SWUTemplate :: "string \<Rightarrow> SWUTemplate decoder" where
  "set_SWUTemplate key x t =
     (case match_field [''id'', ''tags'', ''created'', ''versions'', ''name''] key of
        None \<Rightarrow> (t, None)
      | Some f \<Rightarrow>
          if f = ''id'' then store decode_string x (template_ID t) (\<lambda>y. t\<lparr>template_ID := y\<rparr>)
          else if f = ''tags'' then
            store (decode_slice decode_string []) x (template_Tags t) (\<lambda>y. t\<lparr>template_Tags := y\<rparr>)
          else if f = ''created'' then
            store decode_int x (template_Created t) (\<lambda>y. t\<lparr>template_Created := y\<rparr>)
          else if f = ''versions'' then
            store (decode_slice (decode_ptr decode_SWUVersion zero_SWUVersion) None) x
              (template_Versions t) (\<lambda>y. t\<lparr>template_Versions := y\<rparr>)
          else store decode_string x (template_Name t) (\<lambda>y. t\<lparr>template_Name := y\<rparr>))"

definition decode_SWUTemplate :: "SWUTemplate decoder" where
  "decode_SWUTemplate = decode_struct set_SWUTemplate"

text \<open>Storing into the field of \<open>SWULogEvent\<close> whose tag is \<open>f\<close>.\<close>

definition set_SWULogEvent :: "string \<Rightarrow> SWULogEvent decoder" where
  "set_SWULogEvent f x e =
     (if f = ''object'' then store decode_string x (event_Object e) (\<lambda>y. e\<lparr>event_Object := y\<rparr>)
      else if f = ''created'' then store decode_int x (event_Created e) (\<lambda>y. e\<lparr>event_Created := y\<rparr>)
      else if f = ''type'' then store decode_string x (event_Type e) (\<lambda>y. e\<lparr>event_Type := y\<rparr>)
      else store decode_string x (event_Message e) (\<lambda>y. e\<lparr>event_Message := y\<rparr>))"


text \<open>The fields of the embedded \<open>SWULogEvent\<close> are fields of \<open>SWULog\<close> for JSON.\<close>

definition set_SWULog :: "string \<Rightarrow> SWULog decoder" where
  "set_SWULog key x l =
     (case match_field
             [''object'', ''created'', ''type'', ''message'', ''id'', ''recipient_name'',
              ''recipient_address'', ''status'', ''email_id'', ''email_name'', ''email_version'',
              ''events_url''] key of
        None \<Rightarrow> (l, None)
      | Some f \<Rightarrow>
          if f \<in> set [''object'', ''created'', ''type'', ''message''] then
            store (set_SWULogEvent f) x (log_SWULogEvent l) (\<lambda>y. l\<lparr>log_SWULogEvent := y\<rparr>)
          else if f = ''id'' then store decode_string x (log_ID l) (\<lambda>y. l\<lparr>log_ID := y\<rparr>)
          else if f = ''recipient_name'' then
            store decode_string x (log_RecipientName l) (\<lambda>y. l\<lparr>log_RecipientName := y\<rparr>)
          else if f = ''recipient_address'' then
            store decode_string x (log_RecipientAddress l) (\<lambda>y. l\<lparr>log_RecipientAddress := y\<rparr>)
          else if f = ''status'' then store decode_string x (log_Status l) (\<lambda>y. l\<lparr>log_Status := y\<rparr>)
          else if f = ''email_id'' then store decode_string x (log_EmailID l) (\<lambda>y. l\<lparr>log_EmailID := y\<rparr>)
          else if f = ''email_name'' then
            store decode_string x (log_EmailName l) (\<lambda>y. l\<lparr>log_EmailName := y\<rparr>)
          else if f = ''email_version'' then
            store decode_string x (log_EmailVersion l) (\<lambda>y. l\<lparr>log_EmailVersion := y\<rparr>)
          else store decode_string x (log_EventsURL l) (\<lambda>y. l\<lparr>log_EventsURL := y\<rparr>))"

definition decode_SWULog :: "SWULog decoder" where
  "decode_SWULog = decode_struct set_SWULog"

definition set_SWULogResendEmail :: "string \<Rightarrow> SWULogResendEmail decoder" where
  "set_SWULogResendEmail key x e =
     (case match_field [''name'', ''version_name''] key of
        None \<Rightarrow> (e, None)
      | Some f \<Rightarrow>
          if f = ''name'' then
            store decode_string x (resend_email_Name e) (\<lambda>y. e\<lparr>resend_email_Name := y\<rparr>)
          else
            store decode_string x (resend_email_VersionName e)
              (\<lambda>y. e\<lparr>resend_email_VersionName := y\<rparr>))"

definition set_SWULogResend :: "string \<Rightarrow> SWULogResend decoder" where
  "set_SWULogResend key x r =
     (case match_field [''success'', ''status'', ''log_id'', ''email''] key of
        None \<Rightarrow> (r, None)
      | Some f \<Rightarrow>
          if f = ''success'' then
            store decode_bool x (resend_Success r) (\<lambda>y. r\<lparr>resend_Success := y\<rparr>)
          else if f = ''status'' then
            store decode_string x (resend_Status r) (\<lambda>y. r\<lparr>resend_Status := y\<rparr>)
          else if f = ''log_id'' then store decode_string x (resend_ID r) (\<lambda>y. r\<lparr>resend_ID := y\<rparr>)
          else
            store (decode_struct set_SWULogResendEmail) x (resend_Email r)
              (\<lambda>y. r\<lparr>resend_Email := y\<rparr>))"

definition decode_SWULogResend :: "SWULogResend decoder" where
  "decode_SWULogResend = decode_struct set_SWULogResend"

text \<open>
  \<open>json.Unmarshal(data, v)\<close> for a pointer \<open>v\<close> to a value that \<open>dec\<close> decodes: a text
  that is not JSON leaves the value untouched.
\<close>

definition Unmarshal :: "'a decoder \<Rightarrow> string \<Rightarrow> 'a \<Rightarrow> 'a \<times> json_error option" where
  "Unmarshal dec data cur =
     (case parse_json data of
        None \<Rightarrow> (cur, Some SyntaxError)
      | Some doc \<Rightarrow> dec doc cur)"

subsection \<open>The query string of \<open>GetLogs\<close>\<close>

text \<open>
  \<open>url.Values\<close> maps a key to the list of its values. \<open>Add\<close> appends a value to the list
  of a key. \<open>Encode\<close> writes \<open>key=value\<close> pairs joined by \<open>&\<close>, sorted by key, with key
  and value escaped by \<open>QueryEscape\<close>: letters, digits and \<open>-_.~\<close> stay, a space becomes
  \<open>+\<close>, any other byte \<open>%XX\<close>.
\<close>

type_synonym Values = "(string \<times> string list) list"

definition Add :: "string \<Rightarrow> string \<Rightarrow> Values \<Rightarrow> Values" where
  "Add key val v =
     (if key \<in> fst ` set v then map (\<lambda>(k, vs). if k = key then (k, vs @ [val]) else (k, vs)) v
      else v @ [(key, [val])])"

definition shouldEscape :: "char \<Rightarrow> bool" where
  "shouldEscape c \<longleftrightarrow>
     c \<notin> set ''abcdefghijklmnopqrstuvwxyzABCDEFGHIJKLMNOPQRSTUVWXYZ0123456789-_.~''"

definition QueryEscape :: "string \<Rightarrow> string" where
  "QueryEscape s =
     concat (map (\<lambda>c.
       if \<not> shouldEscape c then [c]
       else if c = CHR '' '' then ''+''
       else [CHR ''%'', ''0123456789ABCDEF'' ! (of_char c div 16),
             ''0123456789ABCDEF'' ! (of_char c mod 16)]) s)"

fun join :: "string list \<Rightarrow> string \<Rightarrow> string" where
  "join [] sep = []"
| "join [x] sep = x"
| "join (x # y # ys) sep = x @ sep @ join (y # ys) sep"

definition Encode :: "Values \<Rightarrow> string" where
  "Encode v =
     join (concat (map (\<lambda>(k, vs). map (\<lambda>x. QueryEscape k @ ''='' @ QueryEscape x) vs)
                     (sort_key fst v))) ''&''"

text \<open>
  \<open>query.Values\<close> of go-querystring on a \<open>*SWULogQuery\<close>: a nil pointer gives no values;
  otherwise \<open>reflectValue\<close> adds each field under the name of its \<open>url\<close> tag, in the
  order of the declaration, and skips a field tagged \<open>omitempty\<close> when it is 0.
  \<open>query.Values\<close> returns an error for an input that is not a struct, so not here.
\<close>

definition url_omitempty :: "string \<Rightarrow> int \<Rightarrow> Values \<Rightarrow> Values" where
  "url_omitempty name i v = (if i = 0 then v else Add name (FormatInt i) v)"

definition reflectValue :: "SWULogQuery \<Rightarrow> Values" where
  "reflectValue q =
     (url_omitempty ''created_lte'' (query_CreatedLTE q)
     (url_omitempty ''created_lt'' (query_CreatedLT q)
     (url_omitempty ''created_gte'' (query_CreatedGTE q)
     (url_omitempty ''created_gt'' (query_CreatedGT q)
     (url_omitempty ''offset'' (query_Offset q)
     (url_omitempty ''count'' (query_Count q) []))))))"

definition query_Values :: "SWULogQuery option \<Rightarrow> string + Values" where
  "query_Values q =
     (case q of
        None \<Rightarrow> Inr []
      | Some v \<Rightarrow> Inr (reflectValue v))"

subsection \<open>Errors\<close>

record SWUError =
  Code :: int
  Message :: string

text \<open>
  The errors a call returns: an \<open>*SWUError\<close>, the error of \<open>http.NewRequest\<close> (an invalid
  method, or the text of the error of \<open>url.Parse\<close>), the error of \<open>json.Unmarshal\<close>, the
  errors of \<open>json.Marshal\<close> and \<open>query.Values\<close> with their texts, and what
  \<open>errors.Wrap\<close> makes of an error. \<open>errors.Wrap\<close> belongs to another repository; the
  model keeps the error it is given under a constructor, and \<open>cause\<close> gives back the
  error that was wrapped first.
\<close>

datatype http_error = InvalidMethod string | InvalidURL string

datatype error =
    SWU SWUError
  | NewRequestError http_error
  | JSONError json_error
  | MarshalError string
  | ValuesError string
  | Wrap error

fun cause :: "error \<Rightarrow> error" where
  "cause (Wrap e) = cause e"
| "cause e = e"

subsection \<open>Requests and responses\<close>

text \<open>
  A request as \<open>makeRequest\<close> builds it. \<open>request_URL\<close> is the string given to
  \<open>http.NewRequest\<close>. The body is the JSON document that \<open>json.Marshal\<close> wrote,
  \<open>None\<close> for a nil reader; \<open>request_BasicAuth\<close> holds the user name and password that
  \<open>SetBasicAuth\<close> puts into the \<open>Authorization\<close> header; a header keeps the name the
  code gives it.
\<close>

record Request =
  request_Method :: string
  request_URL :: string
  request_BasicAuth :: "(string \<times> string) option"
  request_Header :: "(string \<times> string) list"
  request_Body :: "json option"

text \<open>
  The body of a response is a stream: \<open>ioutil.ReadAll\<close> returns the bytes it could read
  and the error that stopped it, if any.
\<close>

datatype reader = Reader string "string option"

fun ReadAll :: "reader \<Rightarrow> string \<times> string option" where
  "ReadAll (Reader data err) = (data, err)"

record Response =
  StatusCode :: int
  Body :: reader

text \<open>
  What \<open>http.Client.Do\<close> returns: a response and no error, or an error with its text.
  With an error there is no response, except when the redirect policy of the client
  stopped the exchange: then \<open>Do\<close> returns the last response together with the error.
\<close>

datatype do_result =
    Do_ok Response
  | Do_err "Response option" string

record SWUClient =
  Client :: "Request \<Rightarrow> do_result"
  apiKey :: string
  URL :: string

definition swuEndpoint :: string where
  "swuEndpoint = ''https://api.sendwithus.com/api/v1''"

definition apiHeaderClient :: string where
  "apiHeaderClient = ''golang-0.0.1''"

definition newSWUError :: "Response option \<Rightarrow> string \<Rightarrow> SWUError" where
  "newSWUError res message =
     (let s = \<lparr>Code = 0, Message = message\<rparr>
      in case res of
           Some r \<Rightarrow> s\<lparr>Code := StatusCode r\<rparr>
         | None \<Rightarrow> s)"

definition Error :: "SWUError \<Rightarrow> string" where
  "Error e = ''swu.go: Status code: '' @ FormatInt (Code e) @ '', Error: '' @ Message e"

text \<open>\<open>New\<close>; the argument \<open>DefaultClient\<close> stands for \<open>http.DefaultClient\<close>.\<close>

definition New :: "(Request \<Rightarrow> do_result) \<Rightarrow> string \<Rightarrow> SWUClient" where
  "New DefaultClient key = \<lparr>Client = DefaultClient, apiKey = key, URL = swuEndpoint\<rparr>"

text \<open>
  \<open>http.NewRequest\<close> fails when the method is not a token of HTTP or when \<open>url.Parse\<close>
  rejects the URL; an empty method means GET. What \<open>url.Parse\<close> rejects is not
  modelled: \<open>URLParse\<close> is a parameter of the model, giving for a URL the text of the
  error, or \<open>None\<close> when the URL is accepted.
\<close>

type_synonym url_parse = "string \<Rightarrow> string option"

definition validMethod :: "string \<Rightarrow> bool" where
  "validMethod method \<longleftrightarrow>
     method \<noteq> [] \<and>
     list_all (\<lambda>c. c \<in> set ''abcdefghijklmnopqrstuvwxyzABCDEFGHIJKLMNOPQRSTUVWXYZ0123456789!#$%&*+-.^_`|~''
                     \<or> c = CHR 0x27) method"

definition NewRequest :: "url_parse \<Rightarrow> string \<Rightarrow> string \<Rightarrow> json option \<Rightarrow> http_error + Request" where
  "NewRequest URLParse method url body =
     (let m = (if method = [] then ''GET'' else method)
      in if \<not> validMethod m then Inl (InvalidMethod m)
         else case URLParse url of
                Some err \<Rightarrow> Inl (InvalidURL err)
              | None \<Rightarrow>
                  Inr \<lparr>request_Method = m, request_URL = url, request_BasicAuth = None,
                       request_Header = [], request_Body = body\<rparr>)"

definition SetBasicAuth :: "string \<Rightarrow> string \<Rightarrow> Request \<Rightarrow> Request" where
  "SetBasicAuth username password r = r\<lparr>request_BasicAuth := Some (username, password)\<rparr>"

definition Header_Set :: "string \<Rightarrow> string \<Rightarrow> Request \<Rightarrow> Request" where
  "Header_Set key val r =
     r\<lparr>request_Header := AList.update key val (request_Header r)\<rparr>"

subsection \<open>\<open>makeRequest\<close> and \<open>buildRespJSON\<close>\<close>

text \<open>
  The argument \<open>parse interface{}\<close> of \<open>buildRespJSON\<close> is a pointer: the model takes the
  decoder of the type pointed to and the value pointed to, and returns the value as
  \<open>json.Unmarshal\<close> leaves it.
\<close>

definition buildRespJSON :: "'a decoder \<Rightarrow> string \<Rightarrow> 'a \<Rightarrow> error option \<times> 'a" where
  "buildRespJSON dec b parse =
     (case Unmarshal dec b parse of
        (parse', Some err) \<Rightarrow> (Some (Wrap (JSONError err)), parse')
      | (parse', None) \<Rightarrow> (None, parse'))"

text \<open>
  \<open>makeRequest\<close>. The argument \<open>result interface{}\<close> is nil or a pointer: \<open>result\<close> is
  \<open>None\<close> or the decoder of the type pointed to, and \<open>parse\<close> is the value pointed to
  (the unit value under a nil \<open>result\<close>). \<open>wire\<close> lists the requests handed to the
  transport so far. The function returns the error (\<open>None\<close> for nil), the value pointed
  to after the call, and the wire.
\<close>

definition makeRequest ::
  "url_parse \<Rightarrow> SWUClient \<Rightarrow> string \<Rightarrow> string \<Rightarrow> json option \<Rightarrow> 'a decoder option \<Rightarrow> 'a \<Rightarrow>
     Request list \<Rightarrow> error option \<times> 'a \<times> Request list" where
  "makeRequest URLParse c method endpoint body result parse wire =
     (case NewRequest URLParse method (URL c @ endpoint) body of
        Inl err \<Rightarrow> (Some (Wrap (NewRequestError err)), parse, wire)
      | Inr r0 \<Rightarrow>
          (let r = Header_Set ''X-SWU-API-CLIENT'' apiHeaderClient (SetBasicAuth (apiKey c) [] r0)
           in case Client c r of
                Do_err res err \<Rightarrow> (Some (Wrap (SWU (newSWUError res err))), parse, wire @ [r])
              | Do_ok res \<Rightarrow>
                  (case ReadAll (Body res) of
                     (b, Some err) \<Rightarrow>
                       (Some (Wrap (SWU (newSWUError (Some res) err))), parse, wire @ [r])
                   | (b, None) \<Rightarrow>
                       if StatusCode res \<ge> 300 then
                         (Some (Wrap (SWU (newSWUError (Some res) b))), parse, wire @ [r])
                       else
                         (case result of
                            Some dec \<Rightarrow>
                              (let (err, parse') = buildRespJSON dec b parse
                               in (err, parse', wire @ [r]))
                          | None \<Rightarrow> (None, parse, wire @ [r])))))"

subsection \<open>The operations\<close>

text \<open>
  An operation returns its result, \<open>Inl\<close> the error, and the wire. Where the Go function
  returns a pointer to its variable \<open>parse\<close>, the model returns the value. An argument
  that is a pointer in Go is an \<open>option\<close>; the argument \<open>id\<close> is written \<open>id'\<close>.
\<close>

definition decode_templates :: "SWUTemplate option list decoder" where
  "decode_templates = decode_slice (decode_ptr decode_SWUTemplate zero_SWUTemplate) None"

definition decode_logs :: "SWULog option list decoder" where
  "decode_logs = decode_slice (decode_ptr decode_SWULog zero_SWULog) None"

definition returning ::
  "error option \<times> 'a \<times> Request list \<Rightarrow> (error + 'a) \<times> Request list" where
  "returning out =
     (case out of
        (Some err, parse, wire) \<Rightarrow> (Inl (Wrap err), wire)
      | (None, parse, wire) \<Rightarrow> (Inr parse, wire))"

definition Emails :: "url_parse \<Rightarrow> SWUClient \<Rightarrow> Request list \<Rightarrow> (error + SWUTemplate option list) \<times> Request list" where
  "Emails URLParse c wire =
     returning (makeRequest URLParse c ''GET'' ''/templates'' None (Some decode_templates) [] wire)"

definition Templates :: "url_parse \<Rightarrow> SWUClient \<Rightarrow> Request list \<Rightarrow> (error + SWUTemplate option list) \<times> Request list" where
  "Templates URLParse c wire = Emails URLParse c wire"









definition GetLogs ::
  "url_parse \<Rightarrow> SWUClient \<Rightarrow> SWULogQuery option \<Rightarrow> Request list \<Rightarrow>
     (error + SWULog option list) \<times> Request list" where
  "GetLogs URLParse c q wire =
     (case query_Values q of
        Inl err \<Rightarrow> (Inl (Wrap (ValuesError err)), wire)
      | Inr payload \<Rightarrow>
          returning (makeRequest URLParse c ''GET'' (''/logs?'' @ Encode payload) None
                       (Some decode_logs) [] wire))"

definition GetLog :: "url_parse \<Rightarrow> SWUClient \<Rightarrow> string \<Rightarrow> Request list \<Rightarrow> (error + SWULog) \<times> Request list" where
  "GetLog URLParse c id' wire =
     returning (makeRequest URLParse c ''GET'' (''/logs/'' @ id') None (Some decode_SWULog) zero_SWULog wire)"


definition ResendLog ::
  "url_parse \<Rightarrow> SWUClient \<Rightarrow> string \<Rightarrow> Request list \<Rightarrow> (error + SWULogResend) \<times> Request list" where
  "ResendLog URLParse c id' wire =
     (let parse = zero_SWULogResend\<lparr>resend_ID := id'\<rparr>
      in case Marshal (Marshal_ptr Marshal_SWULogResend) (Some parse) of
           Inl err \<Rightarrow> (Inl (Wrap (MarshalError err)), wire)
         | Inr payload \<Rightarrow>
             returning (makeRequest URLParse c ''POST'' ''/resend'' (Some payload)
                          (Some decode_SWULogResend) parse wire))"

subsection \<open>Stating the properties\<close>

text \<open>
  A transport that answers every request with the same outcome, as the stub of a test
  does, and a URL parser that accepts every URL.
\<close>

definition stub :: "do_result \<Rightarrow> Request \<Rightarrow> do_result" where
  "stub out r = out"

definition lenient :: url_parse where
  "lenient url = None"

text \<open>
  The error a caller finds when a call has failed: the error under the wrappers.
  \<open>is_SWUError\<close> is the type assertion \<open>err.(*SWUError)\<close>, the only way to a code field.
\<close>

definition failure :: "(error + 'a) \<times> Request list \<Rightarrow> error option" where
  "failure out = (case fst out of Inl err \<Rightarrow> Some (cause err) | Inr v \<Rightarrow> None)"


text \<open>\<open>url.Parse\<close> accepts the URL that the client makes of an endpoint.\<close>

abbreviation accepts :: "url_parse \<Rightarrow> SWUClient \<Rightarrow> string \<Rightarrow> bool" where
  "accepts URLParse c endpoint \<equiv> URLParse (URL c @ endpoint) = None"

text \<open>
  A call handed the request \<open>r\<close> to the transport: it leaves the wire one request
  longer. A call hands over one request or none.
\<close>

abbreviation hands :: "'a \<times> Request list \<Rightarrow> Request list \<Rightarrow> Request \<Rightarrow> bool" where
  "hands out wire r \<equiv> snd out = wire @ [r]"

section \<open>Properties\<close>

subsection \<open>Auxiliary facts\<close>

lemma validMethod_GET: "validMethod ''GET''"
  by (simp add: validMethod_def)

lemma validMethod_POST: "validMethod ''POST''"
  by (simp add: validMethod_def)

lemma validMethod_PUT: "validMethod ''PUT''"
  by (simp add: validMethod_def)






lemma snd_returning: "snd (returning out) = snd (snd out)"
  by (cases out; cases "fst out") (auto simp: returning_def)


lemma NewRequest_accepts:
  "validMethod meth \<Longrightarrow> URLParse url = None \<Longrightarrow>
     NewRequest URLParse meth url body =
       Inr \<lparr>request_Method = meth, request_URL = url, request_BasicAuth = None,
            request_Header = [], request_Body = body\<rparr>"
  by (auto simp: NewRequest_def validMethod_def)

text \<open>The wire after \<open>makeRequest\<close>: unchanged, or one request longer.\<close>

lemma makeRequest_not_built:
  assumes "NewRequest URLParse meth (URL c @ endpoint) body = Inl herr"
  shows "makeRequest URLParse c meth endpoint body result parse wire
       = (Some (Wrap (NewRequestError herr)), parse, wire)"
  using assms by (simp add: makeRequest_def)

lemma makeRequest_wire:
  assumes "NewRequest URLParse meth (URL c @ endpoint) body = Inr req"
  shows "snd (snd (makeRequest URLParse c meth endpoint body result parse wire))
       = wire @ [Header_Set ''X-SWU-API-CLIENT'' apiHeaderClient (SetBasicAuth (apiKey c) [] req)]"
  using assms
  by (simp add: makeRequest_def Let_def split: do_result.splits prod.splits option.splits)


lemma makeRequest_rejected:
  assumes "validMethod meth" and "\<not> accepts URLParse c endpoint"
  shows "snd (snd (makeRequest URLParse c meth endpoint body result parse wire)) = wire"
  using assms by (auto simp: makeRequest_def NewRequest_def validMethod_def)

lemma makeRequest_hands_iff:
  assumes "validMethod meth"
  shows "hands (snd (makeRequest URLParse c meth endpoint body result parse wire)) wire r \<longleftrightarrow>
     accepts URLParse c endpoint
     \<and> r = \<lparr>request_Method = meth, request_URL = URL c @ endpoint,
             request_BasicAuth = Some (apiKey c, []),
             request_Header = [(''X-SWU-API-CLIENT'', ''golang-0.0.1'')], request_Body = body\<rparr>"
proof (cases "accepts URLParse c endpoint")
  case True
  have "NewRequest URLParse meth (URL c @ endpoint) body =
       Inr \<lparr>request_Method = meth, request_URL = URL c @ endpoint, request_BasicAuth = None,
            request_Header = [], request_Body = body\<rparr>"
    using assms True by (rule NewRequest_accepts)
  from makeRequest_wire [OF this, of result parse wire]
  show ?thesis
    using True by (auto simp: Header_Set_def SetBasicAuth_def apiHeaderClient_def)
next
  case False
  with assms show ?thesis
    by (simp add: makeRequest_rejected)
qed

text \<open>
  What \<open>makeRequest\<close> returns when it handed the request \<open>r\<close> to the transport is decided
  by the answer of the transport to \<open>r\<close>.
\<close>

lemma makeRequest_handed:
  assumes "hands (snd (makeRequest URLParse c meth endpoint body result parse wire)) wire r"
  shows "makeRequest URLParse c meth endpoint body result parse wire =
     (case Client c r of
        Do_err res err \<Rightarrow> (Some (Wrap (SWU (newSWUError res err))), parse, wire @ [r])
      | Do_ok res \<Rightarrow>
          (case ReadAll (Body res) of
             (b, Some err) \<Rightarrow> (Some (Wrap (SWU (newSWUError (Some res) err))), parse, wire @ [r])
           | (b, None) \<Rightarrow>
               if StatusCode res \<ge> 300 then
                 (Some (Wrap (SWU (newSWUError (Some res) b))), parse, wire @ [r])
               else
                 (case result of
                    Some dec \<Rightarrow>
                      (let (err, parse') = buildRespJSON dec b parse in (err, parse', wire @ [r]))
                  | None \<Rightarrow> (None, parse, wire @ [r]))))"
proof (cases "NewRequest URLParse meth (URL c @ endpoint) body")
  case (Inl herr)
  from makeRequest_not_built [OF this, of result parse wire] assms show ?thesis
    by simp
next
  case (Inr req)
  from makeRequest_wire [OF this, of result parse wire] assms
  have r: "Header_Set ''X-SWU-API-CLIENT'' apiHeaderClient (SetBasicAuth (apiKey c) [] req) = r"
    by simp
  show ?thesis
    by (simp add: makeRequest_def Inr Let_def r)
qed




lemma handed_decode:
  assumes "hands (snd (makeRequest URLParse c meth endpoint body (Some dec) parse wire)) wire r"
    and "Client c r = Do_ok res" and "ReadAll (Body res) = (b, None)"
    and "StatusCode res < 300"
  shows "makeRequest URLParse c meth endpoint body (Some dec) parse wire
       = (case Unmarshal dec b parse of
            (parse', Some err) \<Rightarrow> (Some (Wrap (JSONError err)), parse', wire @ [r])
          | (parse', None) \<Rightarrow> (None, parse', wire @ [r]))"
  using assms(2,3,4)
  by (simp add: makeRequest_handed [OF assms(1)] buildRespJSON_def split: prod.splits option.splits)




text \<open>The texts and documents of the examples.\<close>

lemma resend_body_text:
  \<open>parse_json ''{"success":true,"status":"queued"}''
     = Some (JObject [(''success'', JBool True), (''status'', JString ''queued'')])\<close>
  by code_simp

lemma decode_resend_body:
  "decode_SWULogResend (JObject [(''success'', JBool True), (''status'', JString ''queued'')]) r
     = (r\<lparr>resend_Success := True, resend_Status := ''queued''\<rparr>, None)"
  by (simp add: decode_SWULogResend_def decode_struct_def set_SWULogResend_def match_field_def
        store_def decode_bool_def decode_string_def saveError_def)


lemma logs_query_values:
  "reflectValue \<lparr>query_Count = 10, query_Offset = 0, query_CreatedGT = 1000,
       query_CreatedGTE = 0, query_CreatedLT = 0, query_CreatedLTE = 0\<rparr>
     = [(''count'', [''10'']), (''created_gt'', [''1000''])]"
  by code_simp

lemma logs_query_string:
  "Encode [(''count'', [''10'']), (''created_gt'', [''1000''])] = ''count=10&created_gt=1000''"
  by code_simp

subsection \<open>The scanner has calls enough\<close>

text \<open>
  A scan that succeeds with some bound on its calls consumes at least one byte and succeeds
  with the same result under every bound of at least twice the bytes consumed. So the
  verdict of \<open>parse_json\<close> is the verdict under any bound.
\<close>

lemma skip_space_length: "length (skip_space s) \<le> length s"
  by (simp add: skip_space_def length_dropWhile_le)

lemma skip_space_Cons: "skip_space s = c # cs \<Longrightarrow> length cs < length s"
  using skip_space_length [of s] by simp

lemma prepend_Some:
  "prepend xs r = Some (ys, rest) \<longleftrightarrow> (\<exists>zs. r = Some (zs, rest) \<and> ys = xs @ zs)"
  by (auto simp: prepend_def split: option.splits)

lemma tag_Some: "tag mk r = Some (v, rest) \<longleftrightarrow> (\<exists>x. r = Some (x, rest) \<and> v = mk x)"
  by (auto simp: tag_def split: option.splits)

lemma unquote_length: "unquote s = Some (x, r) \<Longrightarrow> length r < length s"
proof (induction s arbitrary: x r rule: unquote.induct)
  case 1
  then show ?case by simp
next
  case (2 c cs)
  show ?case
    using "2.prems" "2.IH"
    by (fastforce simp: prepend_Some split: if_splits list.splits option.splits)
qed

lemma scan_digits_length: "scan_digits s = Some (x, r) \<Longrightarrow> length r < length s"
  by (cases s) (auto simp: scan_digits_def split: if_splits intro: le_imp_less_Suc length_dropWhile_le)

lemma scan_digits_length_le: "scan_digits s = Some (x, r) \<Longrightarrow> length r \<le> length s"
  using scan_digits_length by fastforce

lemma scan_int_length: "scan_int s = Some (x, r) \<Longrightarrow> length r < length s"
  by (auto simp: scan_int_def split: list.splits if_splits dest: scan_digits_length)

lemma scan_frac_length: "scan_frac s = Some (x, r) \<Longrightarrow> length r \<le> length s"
  by (auto simp: scan_frac_def prepend_Some split: list.splits if_splits dest: scan_digits_length_le)

lemma scan_exp_length: "scan_exp s = Some (x, r) \<Longrightarrow> length r \<le> length s"
  by (auto simp: scan_exp_def prepend_Some split: list.splits if_splits dest: scan_digits_length_le)

lemma scan_number_length: "scan_number s = Some (x, r) \<Longrightarrow> length r < length s"
  by (auto simp: scan_number_def prepend_Some split: list.splits if_splits option.splits prod.splits
           dest!: scan_int_length scan_frac_length scan_exp_length)


lemma scan_value_leaf:
  assumes "skip_space s = c # cs" and "c \<noteq> CHR ''{''" and "c \<noteq> CHR ''[''"
  shows "scan_value (Suc n) s = scan_value (Suc m) s"
  using assms by simp

lemma scan_value_leaf_length:
  assumes sp: "skip_space s = c # cs" and "c \<noteq> CHR ''{''" and "c \<noteq> CHR ''[''"
    and val: "scan_value (Suc n) s = Some (v, r)"
  shows "length r < length s"
proof -
  have le: "length (c # cs) \<le> length s"
    using skip_space_length [of s] sp by simp
  have "length r < length (c # cs)"
    using val sp assms(2,3)
    by (auto simp: tag_Some split: if_splits dest: unquote_length scan_number_length)
  with le show ?thesis by simp
qed

lemma scan_value_step:
  assumes IHm: "\<And>s ms r. scan_members n s = Some (ms, r) \<Longrightarrow>
            length r < length s \<and> (\<forall>m. 2 * (length s - length r) \<le> m \<longrightarrow> scan_members m s = Some (ms, r))"
    and IHe: "\<And>s vs r. scan_elements n s = Some (vs, r) \<Longrightarrow>
            length r < length s \<and> (\<forall>m. 2 * (length s - length r) \<le> m \<longrightarrow> scan_elements m s = Some (vs, r))"
    and val: "scan_value (Suc n) s = Some (v, r)"
  shows "length r < length s \<and> (\<forall>m. 2 * (length s - length r) \<le> m \<longrightarrow> scan_value m s = Some (v, r))"
proof -
  from val obtain c cs where sp: "skip_space s = c # cs"
    by (cases "skip_space s") auto
  have len: "length cs < length s"
    using skip_space_Cons [OF sp] .
  consider (obj) "c = CHR ''{''" | (arr) "c \<noteq> CHR ''{''" "c = CHR ''[''"
    | (leaf) "c \<noteq> CHR ''{''" "c \<noteq> CHR ''[''"
    by blast
  then show ?thesis
  proof cases
    case obj
    with val sp obtain d ds where sp2: "skip_space cs = d # ds"
      by (cases "skip_space cs") auto
    have len2: "length ds < length cs"
      using skip_space_Cons [OF sp2] .
    show ?thesis
    proof (cases "d = CHR ''}''")
      case True
      with val sp sp2 obj have res: "v = JObject []" "r = ds"
        by auto
      have "scan_value m s = Some (v, r)" if "2 * (length s - length r) \<le> m" for m
      proof -
        from that len len2 res obtain m' where "m = Suc m'"
          by (cases m) auto
        then show ?thesis
          using sp sp2 obj True res by simp
      qed
      with len len2 res show ?thesis by auto
    next
      case False
      with val sp sp2 obj obtain ms where mem: "scan_members n (d # ds) = Some (ms, r)"
        and v: "v = JObject ms"
        by (auto simp: tag_Some)
      from IHm [OF mem] have shorter: "length r < length (d # ds)"
        and enough: "\<And>m. 2 * (length (d # ds) - length r) \<le> m \<Longrightarrow> scan_members m (d # ds) = Some (ms, r)"
        by blast+
      have "scan_value m s = Some (v, r)" if "2 * (length s - length r) \<le> m" for m
      proof -
        from that len len2 shorter obtain m' where m: "m = Suc m'"
          by (cases m) auto
        with that len len2 shorter have "2 * (length (d # ds) - length r) \<le> m'"
          by simp
        from enough [OF this] show ?thesis
          using sp sp2 obj False v m by (simp add: tag_def)
      qed
      with len len2 shorter show ?thesis by auto
    qed
  next
    case arr
    with val sp obtain d ds where sp2: "skip_space cs = d # ds"
      by (cases "skip_space cs") auto
    have len2: "length ds < length cs"
      using skip_space_Cons [OF sp2] .
    show ?thesis
    proof (cases "d = CHR '']''")
      case True
      with val sp sp2 arr have res: "v = JArray []" "r = ds"
        by auto
      have "scan_value m s = Some (v, r)" if "2 * (length s - length r) \<le> m" for m
      proof -
        from that len len2 res obtain m' where "m = Suc m'"
          by (cases m) auto
        then show ?thesis
          using sp sp2 arr True res by simp
      qed
      with len len2 res show ?thesis by auto
    next
      case False
      with val sp sp2 arr obtain vs where els: "scan_elements n (d # ds) = Some (vs, r)"
        and v: "v = JArray vs"
        by (auto simp: tag_Some)
      from IHe [OF els] have shorter: "length r < length (d # ds)"
        and enough: "\<And>m. 2 * (length (d # ds) - length r) \<le> m \<Longrightarrow> scan_elements m (d # ds) = Some (vs, r)"
        by blast+
      have "scan_value m s = Some (v, r)" if "2 * (length s - length r) \<le> m" for m
      proof -
        from that len len2 shorter obtain m' where m: "m = Suc m'"
          by (cases m) auto
        with that len len2 shorter have "2 * (length (d # ds) - length r) \<le> m'"
          by simp
        from enough [OF this] show ?thesis
          using sp sp2 arr False v m by (simp add: tag_def)
      qed
      with len len2 shorter show ?thesis by auto
    qed
  next
    case leaf
    have shorter: "length r < length s"
      using scan_value_leaf_length [OF sp leaf val] .
    have "scan_value m s = Some (v, r)" if "2 * (length s - length r) \<le> m" for m
    proof -
      from that shorter obtain m' where "m = Suc m'"
        by (cases m) auto
      with val scan_value_leaf [OF sp leaf, of n m'] show ?thesis
        by simp
    qed
    with shorter show ?thesis by blast
  qed
qed

lemma scan_elements_step:
  assumes IHv: "\<And>s v r. scan_value n s = Some (v, r) \<Longrightarrow>
            length r < length s \<and> (\<forall>m. 2 * (length s - length r) \<le> m \<longrightarrow> scan_value m s = Some (v, r))"
    and IHe: "\<And>s vs r. scan_elements n s = Some (vs, r) \<Longrightarrow>
            length r < length s \<and> (\<forall>m. 2 * (length s - length r) \<le> m \<longrightarrow> scan_elements m s = Some (vs, r))"
    and els: "scan_elements (Suc n) s = Some (vs, r)"
  shows "length r < length s \<and> (\<forall>m. 2 * (length s - length r) \<le> m \<longrightarrow> scan_elements m s = Some (vs, r))"
proof -
  from els obtain v r1 where val: "scan_value n s = Some (v, r1)"
    by (cases "scan_value n s") auto
  from IHv [OF val] have len1: "length r1 < length s"
    and enough1: "\<And>m. 2 * (length s - length r1) \<le> m \<Longrightarrow> scan_value m s = Some (v, r1)"
    by blast+
  from els val obtain c cs where sp: "skip_space r1 = c # cs"
    by (cases "skip_space r1") auto
  have len2: "length cs < length r1"
    using skip_space_Cons [OF sp] .
  show ?thesis
  proof (cases "c = CHR '',''")
    case True
    with els val sp obtain vs' where rest: "scan_elements n cs = Some (vs', r)"
      and vs: "vs = v # vs'"
      by (auto simp: prepend_Some)
    from IHe [OF rest] have len3: "length r < length cs"
      and enough3: "\<And>m. 2 * (length cs - length r) \<le> m \<Longrightarrow> scan_elements m cs = Some (vs', r)"
      by blast+
    have "scan_elements m s = Some (vs, r)" if "2 * (length s - length r) \<le> m" for m
    proof -
      from that len1 len2 len3 obtain m' where m: "m = Suc m'"
        by (cases m) auto
      from that m len1 len2 len3 have "2 * (length s - length r1) \<le> m'"
        and "2 * (length cs - length r) \<le> m'"
        by simp_all
      from enough1 [OF this(1)] enough3 [OF this(2)] show ?thesis
        using sp True vs m by (simp add: prepend_def)
    qed
    with len1 len2 len3 show ?thesis by auto
  next
    case False
    with els val sp have close: "c = CHR '']''" and res: "vs = [v]" "r = cs"
      by (auto split: if_splits)
    have "scan_elements m s = Some (vs, r)" if "2 * (length s - length r) \<le> m" for m
    proof -
      from that len1 len2 res obtain m' where m: "m = Suc m'"
        by (cases m) auto
      from that m len1 len2 res have "2 * (length s - length r1) \<le> m'"
        by simp
      from enough1 [OF this] show ?thesis
        using sp False close res m by simp
    qed
    with len1 len2 res show ?thesis by auto
  qed
qed

lemma scan_members_step:
  assumes IHv: "\<And>s v r. scan_value n s = Some (v, r) \<Longrightarrow>
            length r < length s \<and> (\<forall>m. 2 * (length s - length r) \<le> m \<longrightarrow> scan_value m s = Some (v, r))"
    and IHm: "\<And>s ms r. scan_members n s = Some (ms, r) \<Longrightarrow>
            length r < length s \<and> (\<forall>m. 2 * (length s - length r) \<le> m \<longrightarrow> scan_members m s = Some (ms, r))"
    and mem: "scan_members (Suc n) s = Some (ms, r)"
  shows "length r < length s \<and> (\<forall>m. 2 * (length s - length r) \<le> m \<longrightarrow> scan_members m s = Some (ms, r))"
proof -
  from mem obtain q qs where sp0: "skip_space s = q # qs"
    by (cases "skip_space s") auto
  with mem have quote: "q = CHR 0x22"
    by (auto split: if_splits)
  from mem sp0 quote obtain k r0 where key: "unquote qs = Some (k, r0)"
    by (cases "unquote qs") auto
  from mem sp0 quote key obtain c cs where sp1: "skip_space r0 = c # cs"
    by (cases "skip_space r0") auto
  with mem sp0 quote key have colon: "c = CHR '':''"
    by (auto split: if_splits)
  from mem sp0 quote key sp1 colon obtain v r1 where val: "scan_value n cs = Some (v, r1)"
    by (cases "scan_value n cs") auto
  from mem sp0 quote key sp1 colon val obtain d ds where sp2: "skip_space r1 = d # ds"
    by (cases "skip_space r1") auto
  note facts = sp0 quote key sp1 colon val sp2
  have len0: "length qs < length s"
    using skip_space_Cons [OF sp0] .
  have len1: "length r0 < length qs"
    using unquote_length [OF key] .
  have len2: "length cs < length r0"
    using skip_space_Cons [OF sp1] .
  from IHv [OF val] have len3: "length r1 < length cs"
    and enough3: "\<And>m. 2 * (length cs - length r1) \<le> m \<Longrightarrow> scan_value m cs = Some (v, r1)"
    by blast+
  have len4: "length ds < length r1"
    using skip_space_Cons [OF sp2] .
  note lens = len0 len1 len2 len3 len4
  show ?thesis
  proof (cases "d = CHR '',''")
    case True
    with mem facts obtain ms' where rest: "scan_members n ds = Some (ms', r)"
      and ms: "ms = (k, v) # ms'"
      by (auto simp: prepend_Some)
    from IHm [OF rest] have len5: "length r < length ds"
      and enough5: "\<And>m. 2 * (length ds - length r) \<le> m \<Longrightarrow> scan_members m ds = Some (ms', r)"
      by blast+
    have "scan_members m s = Some (ms, r)" if "2 * (length s - length r) \<le> m" for m
    proof -
      from that lens len5 obtain m' where m: "m = Suc m'"
        by (cases m) auto
      from that m lens len5 have "2 * (length cs - length r1) \<le> m'"
        and "2 * (length ds - length r) \<le> m'"
        by simp_all
      from enough3 [OF this(1)] enough5 [OF this(2)] show ?thesis
        using facts True ms m by (simp add: prepend_def)
    qed
    with lens len5 show ?thesis by auto
  next
    case False
    with mem facts have close: "d = CHR ''}''" and res: "ms = [(k, v)]" "r = ds"
      by (auto split: if_splits)
    have "scan_members m s = Some (ms, r)" if "2 * (length s - length r) \<le> m" for m
    proof -
      from that lens res obtain m' where m: "m = Suc m'"
        by (cases m) auto
      from that m lens res have "2 * (length cs - length r1) \<le> m'"
        by simp
      from enough3 [OF this] show ?thesis
        using facts False close res m by simp
    qed
    with lens res show ?thesis by auto
  qed
qed

lemma scan_fuel:
  "(\<forall>s v r. scan_value n s = Some (v, r) \<longrightarrow>
      length r < length s \<and> (\<forall>m. 2 * (length s - length r) \<le> m \<longrightarrow> scan_value m s = Some (v, r)))
   \<and> (\<forall>s vs r. scan_elements n s = Some (vs, r) \<longrightarrow>
      length r < length s \<and> (\<forall>m. 2 * (length s - length r) \<le> m \<longrightarrow> scan_elements m s = Some (vs, r)))
   \<and> (\<forall>s ms r. scan_members n s = Some (ms, r) \<longrightarrow>
      length r < length s \<and> (\<forall>m. 2 * (length s - length r) \<le> m \<longrightarrow> scan_members m s = Some (ms, r)))"
proof (induction n)
  case 0
  show ?case by simp
next
  case (Suc n)
  then have IHv: "\<And>s v r. scan_value n s = Some (v, r) \<Longrightarrow>
            length r < length s \<and> (\<forall>m. 2 * (length s - length r) \<le> m \<longrightarrow> scan_value m s = Some (v, r))"
    and IHe: "\<And>s vs r. scan_elements n s = Some (vs, r) \<Longrightarrow>
            length r < length s \<and> (\<forall>m. 2 * (length s - length r) \<le> m \<longrightarrow> scan_elements m s = Some (vs, r))"
    and IHm: "\<And>s ms r. scan_members n s = Some (ms, r) \<Longrightarrow>
            length r < length s \<and> (\<forall>m. 2 * (length s - length r) \<le> m \<longrightarrow> scan_members m s = Some (ms, r))"
    by blast+
  show ?case
    using scan_value_step [OF IHm IHe] scan_elements_step [OF IHv IHe] scan_members_step [OF IHv IHm]
    by blast
qed

lemma parse_json_fuel:
  assumes "scan_value n data = Some (v, rest)"
  shows "parse_json data = (if skip_space rest = [] then Some v else None)"
proof -
  from scan_fuel [of n] assms
  have enough: "\<forall>m. 2 * (length data - length rest) \<le> m \<longrightarrow> scan_value m data = Some (v, rest)"
    by blast
  have "2 * (length data - length rest) \<le> 2 * length data + 2"
    by simp
  with enough have fuel: "scan_value (2 * length data + 2) data = Some (v, rest)"
    by blast
  show ?thesis
    unfolding parse_json_def fuel by simp
qed


subsection \<open>Examples\<close>

text \<open>
  A list of templates as the service returns it, with a key in another case, a key that no
  field has and a nil version; a log whose creation time is not a number; the text of an
  error.
\<close>

lemma Emails_example:
  \<open>Emails lenient
     (New (stub (Do_ok \<lparr>StatusCode = 200,
        Body = Reader ''[{"id":"t1","Tags":["a"],"created":7,"versions":[{"name":"v1","published":true},null],"extra":{}}]'' None\<rparr>))
        ''key'') []
   = (Inr [Some \<lparr>template_ID = ''t1'', template_Tags = [''a''], template_Created = 7,
                  template_Versions =
                    [Some \<lparr>version_Name = ''v1'', version_ID = [], version_Created = 0,
                            version_HTML = [], version_Text = [], version_Subject = [],
                            version_Published = True\<rparr>, None],
                  template_Name = []\<rparr>],
      [\<lparr>request_Method = ''GET'', request_URL = ''https://api.sendwithus.com/api/v1/templates'',
        request_BasicAuth = Some (''key'', []),
        request_Header = [(''X-SWU-API-CLIENT'', ''golang-0.0.1'')], request_Body = None\<rparr>])\<close>
  by code_simp

lemma GetLog_type_error_example:
  \<open>failure (GetLog lenient
     (New (stub (Do_ok \<lparr>StatusCode = 200, Body = Reader ''{"id":"l1","created":"yesterday"}'' None\<rparr>)) ''key'')
     ''l1'' [])
   = Some (JSONError UnmarshalTypeError)\<close>
  by code_simp

lemma Error_example: "Error \<lparr>Code = 404, Message = ''not found''\<rparr> = ''swu.go: Status code: 404, Error: not found''"
  by code_simp

subsection \<open>Failures\<close>










subsection \<open>Success without a result sink\<close>



subsection \<open>Requests and results\<close>





text \<open>
  C6. For every log identifier, when \<open>ResendLog\<close> handed its request to the transport
  and the transport returned a response with a status code below 300 and the body
  \<open>{"success":true,"status":"queued"}\<close>, the call returns the result whose \<open>ID\<close> is
  the identifier, whose \<open>Success\<close> is true and whose \<open>Status\<close> is \<open>queued\<close>.
\<close>

theorem ResendLog_result:
  assumes "hands (ResendLog URLParse c id' wire) wire r"
    and "Client c r = Do_ok res"
    and \<open>ReadAll (Body res) = (''{"success":true,"status":"queued"}'', None)\<close>
    and "StatusCode res < 300"
  shows
   "fst (ResendLog URLParse c id' wire) =
      Inr \<lparr>resend_Success = True, resend_Status = ''queued'', resend_ID = id',
           resend_Email = \<lparr>resend_email_Name = [], resend_email_VersionName = []\<rparr>\<rparr>"
proof -
  from assms(1)
  have handed: "hands (snd (makeRequest URLParse c ''POST'' ''/resend''
        (Some (Marshal_SWULogResend (zero_SWULogResend\<lparr>resend_ID := id'\<rparr>)))
        (Some decode_SWULogResend) (zero_SWULogResend\<lparr>resend_ID := id'\<rparr>) wire)) wire r"
    by (simp add: ResendLog_def Let_def Marshal_def Marshal_ptr_def snd_returning)
  have "fst (ResendLog URLParse c id' wire) =
      fst (returning (makeRequest URLParse c ''POST'' ''/resend''
        (Some (Marshal_SWULogResend (zero_SWULogResend\<lparr>resend_ID := id'\<rparr>)))
        (Some decode_SWULogResend) (zero_SWULogResend\<lparr>resend_ID := id'\<rparr>) wire))"
    by (simp add: ResendLog_def Let_def Marshal_def Marshal_ptr_def)
  also have "\<dots> = Inr \<lparr>resend_Success = True, resend_Status = ''queued'', resend_ID = id',
           resend_Email = \<lparr>resend_email_Name = [], resend_email_VersionName = []\<rparr>\<rparr>"
    unfolding handed_decode [OF handed assms(2,3,4)]
    by (simp add: Unmarshal_def resend_body_text decode_resend_body returning_def
          zero_SWULogResend_def zero_SWULogResendEmail_def)
  finally show ?thesis .
qed

theorem ResendLog_result_witness:
  \<open>fst (ResendLog lenient
      (New (stub (Do_ok \<lparr>StatusCode = 200, Body = Reader ''{"success":true,"status":"queued"}'' None\<rparr>)) ''key'')
      ''log123'' []) =
     Inr \<lparr>resend_Success = True, resend_Status = ''queued'', resend_ID = ''log123'',
          resend_Email = \<lparr>resend_email_Name = [], resend_email_VersionName = []\<rparr>\<rparr>\<close>
  using ResendLog_result
    [where c = \<open>New (stub (Do_ok \<lparr>StatusCode = 200, Body = Reader ''{"success":true,"status":"queued"}'' None\<rparr>)) ''key''\<close>
       and res = \<open>\<lparr>StatusCode = 200, Body = Reader ''{"success":true,"status":"queued"}'' None\<rparr>\<close>
       and URLParse = lenient and id' = "''log123''" and wire = "[]"
       and r = "\<lparr>request_Method = ''POST'', request_URL = ''https://api.sendwithus.com/api/v1/resend'',
              request_BasicAuth = Some (''key'', []),
              request_Header = [(''X-SWU-API-CLIENT'', ''golang-0.0.1'')], request_Body = Some (JObject [(''log_id'', JString ''log123''),
                (''email'', JObject [(''name'', JString []), (''version_name'', JString [])])])\<rparr>"]
  by (simp add: ResendLog_def Let_def snd_returning Marshal_def Marshal_ptr_def Marshal_SWULogResend_def
        Marshal_SWULogResendEmail_def zero_SWULogResend_def zero_SWULogResendEmail_def
        omitempty_def field_def New_def lenient_def stub_def swuEndpoint_def
        apiHeaderClient_def makeRequest_wire NewRequest_accepts validMethod_GET validMethod_POST
        Header_Set_def SetBasicAuth_def)

text \<open>
  C5. For the query with \<open>Count\<close> 10, \<open>CreatedGT\<close> 1000 and every other field 0,
  the request that \<open>GetLogs\<close> hands to the transport is the GET request whose query
  string is \<open>count=10&created_gt=1000\<close>: the values hold the two fields that are not 0
  and no other.
\<close>

theorem GetLogs_query_string:
  assumes "q = \<lparr>query_Count = 10, query_Offset = 0, query_CreatedGT = 1000,
                query_CreatedGTE = 0, query_CreatedLT = 0, query_CreatedLTE = 0\<rparr>"
  shows
   "query_Values (Some q) = Inr [(''count'', [''10'']), (''created_gt'', [''1000''])]
    \<and> Encode [(''count'', [''10'']), (''created_gt'', [''1000''])] = ''count=10&created_gt=1000''
    \<and> (hands (GetLogs URLParse c (Some q) wire) wire r \<longleftrightarrow>
          accepts URLParse c ''/logs?count=10&created_gt=1000''
          \<and> r = \<lparr>request_Method = ''GET'', request_URL = URL c @ ''/logs?count=10&created_gt=1000'',
                  request_BasicAuth = Some (apiKey c, []),
                  request_Header = [(''X-SWU-API-CLIENT'', ''golang-0.0.1'')],
                  request_Body = None\<rparr>)"
proof -
  have vals: "query_Values (Some q) = Inr [(''count'', [''10'']), (''created_gt'', [''1000''])]"
    unfolding assms by (simp add: query_Values_def logs_query_values)
  have sent: "hands (GetLogs URLParse c (Some q) wire) wire r \<longleftrightarrow>
          accepts URLParse c ''/logs?count=10&created_gt=1000''
          \<and> r = \<lparr>request_Method = ''GET'', request_URL = URL c @ ''/logs?count=10&created_gt=1000'',
                  request_BasicAuth = Some (apiKey c, []),
                  request_Header = [(''X-SWU-API-CLIENT'', ''golang-0.0.1'')],
                  request_Body = None\<rparr>"
    unfolding GetLogs_def vals
    by (simp add: snd_returning logs_query_string makeRequest_hands_iff [OF validMethod_GET])
  show ?thesis
    by (rule conjI [OF vals conjI [OF logs_query_string sent]])
qed

theorem GetLogs_query_string_witness:
  "hands (GetLogs lenient (New (stub (Do_err None [])) ''key'')
       (Some \<lparr>query_Count = 10, query_Offset = 0, query_CreatedGT = 1000,
              query_CreatedGTE = 0, query_CreatedLT = 0, query_CreatedLTE = 0\<rparr>) []) []
     \<lparr>request_Method = ''GET'',
      request_URL = ''https://api.sendwithus.com/api/v1/logs?count=10&created_gt=1000'',
      request_BasicAuth = Some (''key'', []),
      request_Header = [(''X-SWU-API-CLIENT'', ''golang-0.0.1'')], request_Body = None\<rparr>"
  using GetLogs_query_string
    [of "\<lparr>query_Count = 10, query_Offset = 0, query_CreatedGT = 1000,
          query_CreatedGTE = 0, query_CreatedLT = 0, query_CreatedLTE = 0\<rparr>"
        lenient "New (stub (Do_err None [])) ''key''" "[]"
        "\<lparr>request_Method = ''GET'',
          request_URL = ''https://api.sendwithus.com/api/v1/logs?count=10&created_gt=1000'',
          request_BasicAuth = Some (''key'', []),
          request_Header = [(''X-SWU-API-CLIENT'', ''golang-0.0.1'')], request_Body = None\<rparr>"]
  by (simp add: New_def lenient_def swuEndpoint_def)

text \<open>
  C9. \<open>Templates\<close> returns what \<open>Emails\<close> returns and leaves the wire as \<open>Emails\<close> does,
  for every client and transport: the request it hands to the transport is the GET
  request without body to the endpoint \<open>/templates\<close>, handed over when
  \<open>url.Parse\<close> accepts the URL; it hands over no request otherwise.
\<close>

theorem Templates_is_Emails:
  "Templates URLParse c wire = Emails URLParse c wire
   \<and> (hands (Templates URLParse c wire) wire r \<longleftrightarrow>
         accepts URLParse c ''/templates''
         \<and> r = \<lparr>request_Method = ''GET'', request_URL = URL c @ ''/templates'',
                 request_BasicAuth = Some (apiKey c, []),
                 request_Header = [(''X-SWU-API-CLIENT'', ''golang-0.0.1'')],
                 request_Body = None\<rparr>)
   \<and> (\<not> accepts URLParse c ''/templates'' \<longrightarrow> snd (Templates URLParse c wire) = wire)"
proof -
  have same: "Templates URLParse c wire = Emails URLParse c wire"
    by (simp add: Templates_def)
  show ?thesis
    unfolding same
    unfolding Emails_def snd_returning
    by (simp add: makeRequest_hands_iff [OF validMethod_GET] makeRequest_rejected [OF validMethod_GET])
qed

theorem Templates_is_Emails_witness:
  \<open>Templates lenient (New (stub (Do_ok \<lparr>StatusCode = 200, Body = Reader ''[null]'' None\<rparr>)) ''key'') []
     = Emails lenient (New (stub (Do_ok \<lparr>StatusCode = 200, Body = Reader ''[null]'' None\<rparr>)) ''key'') []
   \<and> hands (Templates lenient
              (New (stub (Do_ok \<lparr>StatusCode = 200, Body = Reader ''[null]'' None\<rparr>)) ''key'') []) []
       \<lparr>request_Method = ''GET'', request_URL = ''https://api.sendwithus.com/api/v1/templates'',
        request_BasicAuth = Some (''key'', []),
        request_Header = [(''X-SWU-API-CLIENT'', ''golang-0.0.1'')], request_Body = None\<rparr>\<close>
  using Templates_is_Emails
    [of lenient \<open>New (stub (Do_ok \<lparr>StatusCode = 200, Body = Reader ''[null]'' None\<rparr>)) ''key''\<close> "[]"
        "\<lparr>request_Method = ''GET'', request_URL = ''https://api.sendwithus.com/api/v1/templates'',
          request_BasicAuth = Some (''key'', []),
          request_Header = [(''X-SWU-API-CLIENT'', ''golang-0.0.1'')], request_Body = None\<rparr>"]
  by (simp add: New_def lenient_def swuEndpoint_def Templates_def)

subsection \<open>Serialization\<close>

text \<open>
  C8. Serializing a template whose only non-zero field is \<open>Name\<close> gives the JSON object
  with the single member \<open>name\<close>; and for any template, each of the five members
  \<open>id\<close>, \<open>tags\<close>, \<open>created\<close>, \<open>versions\<close>, \<open>name\<close> is present in the serialized
  object exactly when its field is not at its zero value (empty string, empty slice, 0).
\<close>

theorem template_zero_fields_omitted:
  "(n \<noteq> [] \<longrightarrow>
      Marshal_SWUTemplate (zero_SWUTemplate\<lparr>template_Name := n\<rparr>) = JObject [(''name'', JString n)])
   \<and> (\<exists>ms. Marshal_SWUTemplate t = JObject ms
        \<and> (''id'' \<in> fst ` set ms \<longleftrightarrow> template_ID t \<noteq> [])
        \<and> (''tags'' \<in> fst ` set ms \<longleftrightarrow> template_Tags t \<noteq> [])
        \<and> (''created'' \<in> fst ` set ms \<longleftrightarrow> template_Created t \<noteq> 0)
        \<and> (''versions'' \<in> fst ` set ms \<longleftrightarrow> template_Versions t \<noteq> [])
        \<and> (''name'' \<in> fst ` set ms \<longleftrightarrow> template_Name t \<noteq> [])
        \<and> fst ` set ms \<subseteq> {''id'', ''tags'', ''created'', ''versions'', ''name''})"
  by (simp add: Marshal_SWUTemplate_def zero_SWUTemplate_def omitempty_def)

theorem template_zero_fields_omitted_witness:
  "Marshal_SWUTemplate (zero_SWUTemplate\<lparr>template_Name := ''welcome''\<rparr>)
     = JObject [(''name'', JString ''welcome'')]"
  using template_zero_fields_omitted [of "''welcome''" zero_SWUTemplate] by simp


end
